theory Spec2Isabelle
  imports Complex_Main "HOL-Library.List_Lexorder" "HOL-Library.Char_ord"
begin

section \<open>Sales analysis scripts: data model\<close>

text \<open>
  The repository holds two scripts, \<^verbatim>\<open>anova.py\<close> (function
  \<^verbatim>\<open>analisis_anova_completo\<close>) and \<^verbatim>\<open>main.py\<close> (function
  \<^verbatim>\<open>analyze_sales_data\<close>). Both read a workbook with one sheet per store, build one
  combined table and hand it to statistical library routines. The control flow, the data
  shaping and the console output are the scripts' own; the statistics (OLS fit, ANOVA table,
  Levene, Shapiro-Wilk, Tukey HSD, the Student t quantile), the date parser and the file system
  are outside the repository and enter the model as the fields of a record \<open>lib\<close>.

  Python floats are real numbers or NaN; a comparison with NaN is false, as in Python.
  Exceptions are values: every function that can raise returns \<open>exn + 'a\<close>.
\<close>

datatype exn =
  FileNotFoundError | ValueError | IndexError | KeyError | TypeError | OtherException string

datatype pyfloat = NaN | Fl real

fun flt :: "pyfloat \<Rightarrow> pyfloat \<Rightarrow> bool" where
  "flt (Fl a) (Fl b) = (a < b)"
| "flt _ _ = False"

fun fgt :: "pyfloat \<Rightarrow> pyfloat \<Rightarrow> bool" where
  "fgt (Fl a) (Fl b) = (a > b)"
| "fgt _ _ = False"

fun fle :: "pyfloat \<Rightarrow> pyfloat \<Rightarrow> bool" where
  "fle (Fl a) (Fl b) = (a \<le> b)"
| "fle _ _ = False"

fun fneg :: "pyfloat \<Rightarrow> pyfloat" where
  "fneg (Fl a) = Fl (- a)"
| "fneg NaN = NaN"

fun fadd :: "pyfloat \<Rightarrow> pyfloat \<Rightarrow> pyfloat" where
  "fadd (Fl a) (Fl b) = Fl (a + b)"
| "fadd _ _ = NaN"

fun fsub :: "pyfloat \<Rightarrow> pyfloat \<Rightarrow> pyfloat" where
  "fsub (Fl a) (Fl b) = Fl (a - b)"
| "fsub _ _ = NaN"

fun fmul :: "pyfloat \<Rightarrow> pyfloat \<Rightarrow> pyfloat" where
  "fmul (Fl a) (Fl b) = Fl (a * b)"
| "fmul _ _ = NaN"

text \<open>\<^verbatim>\<open>pd.isna\<close> on a float.\<close>

fun isna :: "pyfloat \<Rightarrow> bool" where
  "isna NaN = True"
| "isna (Fl a) = False"

text \<open>The significance level, \<^verbatim>\<open>alpha = 0.05\<close> in both scripts.\<close>

definition alpha :: pyfloat where
  "alpha = Fl (5 / 100)"

subsection \<open>Workbooks and tables\<close>

text \<open>
  A spreadsheet cell is missing, a number, a date or text. A sheet read by
  \<^verbatim>\<open>pd.read_excel\<close> is a frame: the header names and the rows. A row shorter than the
  header reads as missing in the columns it lacks, as a blank spreadsheet cell does.
  A workbook is the list of its sheets in order, each with its name and with what
  \<^verbatim>\<open>pd.read_excel\<close> gives for it (a frame, or the exception it raises). Sheet names of
  a workbook are distinct.
\<close>

datatype cell = NA | Num real | Date int nat nat | Text string

record frame =
  columns :: "string list"
  rows :: "cell list list"

type_synonym workbook = "(string \<times> (exn + frame)) list"

fun cell_at :: "cell list \<Rightarrow> nat \<Rightarrow> cell" where
  "cell_at [] i = NA"
| "cell_at (c # cs) 0 = c"
| "cell_at (c # cs) (Suc i) = cell_at cs i"

text \<open>A row of the combined table: columns \<^verbatim>\<open>Fecha\<close>, \<^verbatim>\<open>Ventas\<close>, \<^verbatim>\<open>Supermercado\<close>.\<close>

record sale =
  Fecha :: cell
  Ventas :: cell
  Supermercado :: string

text \<open>A row of the Tukey HSD result table.\<close>

record tukey_row =
  group1 :: string
  group2 :: string
  meandiff :: pyfloat
  p_adj :: pyfloat
  reject :: bool

text \<open>A row of the monthly statistics of the reference store (main.py, lines 30-33).\<close>

record month_stats =
  AnoMes :: "int \<times> nat"
  Media_Ventas :: pyfloat
  Desviacion_Estandar :: pyfloat
  N_Observaciones :: nat

text \<open>
  The library and the file system. \<open>files\<close> gives, for a path, nothing when no file is
  there, and otherwise what \<^verbatim>\<open>pd.ExcelFile\<close> does with the file. \<open>'m\<close> is the type of
  a fitted OLS model. An ANOVA table is the list of its rows: index label and \<^verbatim>\<open>PR(>F)\<close>.
\<close>

record 'm lib =
  files :: "string \<Rightarrow> (exn + workbook) option"
  levene :: "cell list list \<Rightarrow> exn + (pyfloat \<times> pyfloat)"
  ols_fit :: "sale list \<Rightarrow> exn + 'm"
  resid :: "'m \<Rightarrow> pyfloat list"
  shapiro :: "pyfloat list \<Rightarrow> exn + (pyfloat \<times> pyfloat)"
  anova_lm :: "'m \<Rightarrow> exn + (string \<times> pyfloat) list"
  pairwise_tukeyhsd :: "sale list \<Rightarrow> exn + tukey_row list"
  t_ppf :: "real \<Rightarrow> nat \<Rightarrow> real"
  to_datetime :: "cell \<Rightarrow> exn + (int \<times> nat \<times> nat) option"

subsection \<open>Console output and effects\<close>

text \<open>
  A run leaves a trace: the \<^verbatim>\<open>print\<close> calls in order (the format string in ASCII, without
  accents, quote marks and newline escapes, and the values it interpolates), the calls into the
  statistics library, and the image files written. A computation is its trace together with
  its result or the exception it raised.
\<close>

datatype arg =
  Str string | Flt pyfloat | Cnt nat | Exc exn | Per "int \<times> nat"
| Tbl "sale list" | Anova "(string \<times> pyfloat) list" | Tukey "tukey_row list"
| Means "(string \<times> pyfloat) list"
| Stats "month_stats list"

datatype event = Print string "arg list" | Call string | SaveFig string

type_synonym 'a run = "event list \<times> (exn + 'a)"

definition and_then :: "'a run \<Rightarrow> ('a \<Rightarrow> 'b run) \<Rightarrow> 'b run" where
  "and_then m f =
     (case snd m of
        Inl e \<Rightarrow> (fst m, Inl e)
      | Inr a \<Rightarrow> (fst m @ fst (f a), snd (f a)))"

subsection \<open>Frame operations used by the loaders\<close>

text \<open>\<^verbatim>\<open>pd.ExcelFile(path)\<close>: a path with no file raises \<^verbatim>\<open>FileNotFoundError\<close>.\<close>

definition ExcelFile :: "'m lib \<Rightarrow> string \<Rightarrow> exn + workbook" where
  "ExcelFile lib path =
     (case files lib path of None \<Rightarrow> Inl FileNotFoundError | Some r \<Rightarrow> r)"

text \<open>\<^verbatim>\<open>df.iloc[:, [0, 1]]\<close>: positional selection; out of bounds with fewer than two columns.\<close>

definition iloc_first_two :: "frame \<Rightarrow> exn + frame" where
  "iloc_first_two df =
     (if length (columns df) < 2 then Inl IndexError
      else Inr \<lparr>columns = take 2 (columns df), rows = map (take 2) (rows df)\<rparr>)"

text \<open>\<^verbatim>\<open>df.columns = names\<close>: a length mismatch raises \<^verbatim>\<open>ValueError\<close>.\<close>

definition set_columns :: "string list \<Rightarrow> frame \<Rightarrow> exn + frame" where
  "set_columns names df =
     (if length names \<noteq> length (columns df) then Inl ValueError
      else Inr (df\<lparr>columns := names\<rparr>))"

text \<open>
  \<^verbatim>\<open>df['Supermercado'] = sheet_name\<close> on a frame whose columns are \<^verbatim>\<open>Fecha\<close>,
  \<^verbatim>\<open>Ventas\<close>: the rows of the combined table.
\<close>

definition add_store :: "string \<Rightarrow> frame \<Rightarrow> sale list" where
  "add_store sheet_name df =
     map (\<lambda>r. \<lparr>Fecha = cell_at r 0, Ventas = cell_at r 1, Supermercado = sheet_name\<rparr>) (rows df)"

text \<open>\<^verbatim>\<open>pd.concat(frames, ignore_index=True)\<close>: no frames to concatenate is a \<^verbatim>\<open>ValueError\<close>.\<close>

definition pd_concat :: "sale list list \<Rightarrow> exn + sale list" where
  "pd_concat dfs = (if dfs = [] then Inl ValueError else Inr (concat dfs))"

text \<open>\<^verbatim>\<open>df.dropna(subset=['Ventas'])\<close>.\<close>

definition dropna_ventas :: "sale list \<Rightarrow> sale list" where
  "dropna_ventas df = filter (\<lambda>r. Ventas r \<noteq> NA) df"

text \<open>The body of a \<^verbatim>\<open>for sheet_name in sheet_names\<close> loop: the first exception ends it.\<close>

fun read_sheets ::
  "(string \<times> (exn + frame) \<Rightarrow> exn + sale list) \<Rightarrow> workbook \<Rightarrow> exn + sale list list" where
  "read_sheets body [] = Inr []"
| "read_sheets body (sh # shs) =
     (case body sh of
        Inl e \<Rightarrow> Inl e
      | Inr df \<Rightarrow> (case read_sheets body shs of Inl e \<Rightarrow> Inl e | Inr dfs \<Rightarrow> Inr (df # dfs)))"

text \<open>
  \<^verbatim>\<open>df.groupby("Supermercado")\<close>: the store labels present in the table, sorted, and for
  each the \<^verbatim>\<open>Ventas\<close> values of its rows in table order.
\<close>

definition stores :: "sale list \<Rightarrow> string list" where
  "stores df = sort (remdups (map Supermercado df))"

definition samples :: "sale list \<Rightarrow> cell list list" where
  "samples df = map (\<lambda>s. map Ventas (filter (\<lambda>r. Supermercado r = s) df)) (stores df)"

text \<open>\<^verbatim>\<open>anova_table.loc[label, 'PR(>F)']\<close>: a label that is not in the index is a \<^verbatim>\<open>KeyError\<close>.\<close>

definition loc_pr :: "(string \<times> pyfloat) list \<Rightarrow> string \<Rightarrow> exn + pyfloat" where
  "loc_pr anova_table label =
     (case map_of anova_table label of None \<Rightarrow> Inl KeyError | Some p \<Rightarrow> Inr p)"

section \<open>anova.py\<close>

subsection \<open>Section 0: loading (the body of the try block, lines 20-29)\<close>

definition read_sheet_anova :: "string \<times> (exn + frame) \<Rightarrow> exn + sale list" where
  "read_sheet_anova sh =
     (case snd sh of
        Inl e \<Rightarrow> Inl e
      | Inr df_temp \<Rightarrow>
          (case iloc_first_two df_temp of
             Inl e \<Rightarrow> Inl e
           | Inr df2 \<Rightarrow>
               (case set_columns [''Fecha'', ''Ventas''] df2 of
                  Inl e \<Rightarrow> Inl e
                | Inr df3 \<Rightarrow> Inr (add_store (fst sh) df3))))"

definition load_data :: "'m lib \<Rightarrow> string \<Rightarrow> exn + sale list" where
  "load_data lib ruta_archivo_excel =
     (case ExcelFile lib ruta_archivo_excel of
        Inl e \<Rightarrow> Inl e
      | Inr xls \<Rightarrow>
          (case read_sheets read_sheet_anova xls of
             Inl e \<Rightarrow> Inl e
           | Inr all_sales_data \<Rightarrow>
               (case pd_concat all_sales_data of
                  Inl e \<Rightarrow> Inl e
                | Inr df \<Rightarrow> Inr (dropna_ventas df))))"

subsection \<open>Sections 1 and 2: hypotheses and assumption tests (lines 43-70)\<close>

definition planteamiento :: "unit run" where
  "planteamiento =
     ([Print ''--- 1. PLANTEAMIENTO DEL ANALISIS ANOVA ---'' [],
       Print ''H_0: Las medias de ventas de todos los supermercados son iguales.'' [],
       Print ''H_1: Al menos una media de ventas es diferente.'' [],
       Print ''Nivel de significancia alpha = {alpha}'' [Flt alpha]], Inr ())"

definition verificacion :: "'m lib \<Rightarrow> sale list \<Rightarrow> 'm run" where
  "verificacion lib df_all_sales =
     and_then
       ([Print ''--- 2. VERIFICACION DE REQUISITOS DEL ANOVA ---'' [],
         Print ''a) Independencia: Se asume que las observaciones son independientes por el diseno del estudio.'' [],
         Print ''b) Prueba de Homogeneidad de Varianzas (Levene):'' [],
         Call ''stats.levene''], levene lib (samples df_all_sales))
       (\<lambda>lev. and_then
          ([Print ''   p-valor = {levene_p:.4f}'' [Flt (snd lev)],
            (if fgt (snd lev) alpha
             then Print ''   Conclusion: Se cumple el requisito de homogeneidad de varianzas. '' []
             else Print ''   Conclusion: NO se cumple el requisito de homogeneidad de varianzas. '' []),
            Print ''c) Prueba de Normalidad de los Residuos (Shapiro-Wilk):'' [],
            Call ''ols.fit''], ols_fit lib df_all_sales)
          (\<lambda>model. and_then
             ([Call ''stats.shapiro''], shapiro lib (resid lib model))
             (\<lambda>sha.
                ([Print ''   p-valor = {shapiro_p:.4f}'' [Flt (snd sha)],
                  (if fgt (snd sha) alpha
                   then Print ''   Conclusion: Se cumple el requisito de normalidad. '' []
                   else Print ''   Conclusion: NO se cumple el requisito de normalidad. '' [])],
                 Inr model))))"

subsection \<open>Section 3: plots (lines 73-92)\<close>

text \<open>Drawing and saving the two figures is taken to succeed.\<close>

definition graficos :: "unit run" where
  "graficos =
     ([Print ''--- 3. GENERANDO GRAFICOS DE LAS DISTRIBUCIONES ---'' [],
       Call ''sns.kdeplot'',
       SaveFig ''grafico_densidad_ventas.png'',
       Call ''sns.boxplot'',
       SaveFig ''boxplot_ventas.png'',
       Print ''Graficos grafico_densidad_ventas.png y boxplot_ventas.png guardados.'' [],
       Print ''Estos graficos ayudan a visualizar las diferencias y la forma de los datos,'' [],
       Print ''especialmente util si no se cumplio el supuesto de normalidad.'' []], Inr ())"

subsection \<open>Section 4: the ANOVA table and the decision (lines 95-111)\<close>

text \<open>The result is \<^verbatim>\<open>run_post_hoc\<close>.\<close>

definition contraste :: "'m lib \<Rightarrow> 'm \<Rightarrow> bool run" where
  "contraste lib model =
     and_then
       ([Print ''--- 4. TABLA ANOVA Y RESULTADO DEL CONTRASTE ---'' [],
         Call ''anova_lm''], anova_lm lib model)
       (\<lambda>anova_table. and_then
          ([Print ''{anova_table}'' [Anova anova_table]], loc_pr anova_table ''C(Supermercado)'')
          (\<lambda>p_value_anova.
             (if flt p_value_anova alpha
              then ([Print ''Conclusion del Contraste ANOVA:'' [],
                     Print ''   El p-valor ({p_value_anova:.4e}) es menor que alpha. SE RECHAZA H_0. '' [Flt p_value_anova],
                     Print ''   Existen diferencias estadisticamente significativas en las ventas medias de al menos un supermercado. '' []],
                    Inr True)
              else ([Print ''Conclusion del Contraste ANOVA:'' [],
                     Print ''   El p-valor ({p_value_anova:.4e}) es mayor que alpha. NO se rechaza H_0.'' [Flt p_value_anova],
                     Print ''   No hay evidencia de diferencias significativas en las ventas medias.'' []],
                    Inr False))))"

subsection \<open>Sections 5 and 6: the post-hoc comparison (lines 114-126)\<close>

definition a_posteriori :: "'m lib \<Rightarrow> sale list \<Rightarrow> bool \<Rightarrow> unit run" where
  "a_posteriori lib df_all_sales run_post_hoc =
     (if run_post_hoc
      then and_then
             ([Print ''--- 5. CONTRASTE A POSTERIORI (TUKEY HSD) ---'' [],
               Print ''Buscando que grupos especificos son diferentes entre si... '' [],
               Call ''pairwise_tukeyhsd''], pairwise_tukeyhsd lib df_all_sales)
             (\<lambda>tukey_result.
                ([Print ''{tukey_result}'' [Tukey tukey_result],
                  Print ''--- 6. CONCLUSION FINAL ---'' [],
                  Print ''La tabla de Tukey HSD muestra los pares de supermercados con diferencias significativas (reject=True). '' [],
                  Print ''Esto permite identificar que tiendas tienen un rendimiento de ventas significativamente distinto a otras. '' []],
                 Inr ()))
      else ([Print ''--- 5 y 6. NO SE REQUIERE ANALISIS POST-HOC ---'' []], Inr ()))"

subsection \<open>The function\<close>

text \<open>
  The try block catches \<^verbatim>\<open>FileNotFoundError\<close> first and every other \<^verbatim>\<open>Exception\<close>
  second; both handlers print and return. Nothing after the try block is guarded.
\<close>

definition analisis_anova_completo :: "'m lib \<Rightarrow> string \<Rightarrow> unit run" where
  "analisis_anova_completo lib ruta_archivo_excel =
     (case load_data lib ruta_archivo_excel of
        Inl e \<Rightarrow>
          (if e = FileNotFoundError
           then ([Print ''--- 0. CARGANDO Y PREPARANDO DATOS ---'' [],
                  Print ''ERROR: No se encontro el archivo en la ruta {ruta_archivo_excel}.'' [Str ruta_archivo_excel],
                  Print ''Por favor, asegurate de que el archivo ha sido subido y la ruta es correcta.'' []],
                 Inr ())
           else ([Print ''--- 0. CARGANDO Y PREPARANDO DATOS ---'' [],
                  Print ''Ocurrio un error inesperado al cargar los datos: {e}'' [Exc e]],
                 Inr ()))
      | Inr df_all_sales \<Rightarrow>
          and_then
            ([Print ''--- 0. CARGANDO Y PREPARANDO DATOS ---'' [],
              Print ''Datos cargados correctamente.'' []], Inr ())
            (\<lambda>_. and_then planteamiento
               (\<lambda>_. and_then (verificacion lib df_all_sales)
                  (\<lambda>model. and_then graficos
                     (\<lambda>_. and_then (contraste lib model)
                        (\<lambda>run_post_hoc. a_posteriori lib df_all_sales run_post_hoc))))))"

section \<open>main.py\<close>

subsection \<open>Section 1: monthly confidence intervals of the reference store (lines 21-71)\<close>

text \<open>\<^verbatim>\<open>pd.read_excel(xls, sheet_name=name)\<close>: the sheet of that name.\<close>

definition read_excel :: "workbook \<Rightarrow> string \<Rightarrow> exn + frame" where
  "read_excel xls name = (case map_of xls name of None \<Rightarrow> Inl ValueError | Some r \<Rightarrow> r)"

text \<open>\<^verbatim>\<open>pd.to_datetime(column)\<close>: the first cell that fails to convert raises.\<close>

fun convert_dates :: "'m lib \<Rightarrow> cell list \<Rightarrow> exn + (int \<times> nat \<times> nat) option list" where
  "convert_dates lib [] = Inr []"
| "convert_dates lib (c # cs) =
     (case to_datetime lib c of
        Inl e \<Rightarrow> Inl e
      | Inr d \<Rightarrow> (case convert_dates lib cs of Inl e \<Rightarrow> Inl e | Inr ds \<Rightarrow> Inr (d # ds)))"

text \<open>\<^verbatim>\<open>.dt.to_period('M')\<close>: year and month; a missing date stays missing.\<close>

fun to_period :: "(int \<times> nat \<times> nat) option \<Rightarrow> (int \<times> nat) option" where
  "to_period None = None"
| "to_period (Some (y, m, d)) = Some (y, m)"

text \<open>
  The numbers of a \<^verbatim>\<open>Ventas\<close> column for \<^verbatim>\<open>mean\<close>, \<^verbatim>\<open>std\<close> and \<^verbatim>\<open>count\<close>:
  missing cells are skipped; a cell that is not a number makes the aggregation raise.
\<close>

fun numeric_values :: "cell list \<Rightarrow> exn + real list" where
  "numeric_values [] = Inr []"
| "numeric_values (NA # cs) = numeric_values cs"
| "numeric_values (Num x # cs) =
     (case numeric_values cs of Inl e \<Rightarrow> Inl e | Inr xs \<Rightarrow> Inr (x # xs))"
| "numeric_values (c # cs) = Inl TypeError"

definition mean_of :: "real list \<Rightarrow> pyfloat" where
  "mean_of xs = (if xs = [] then NaN else Fl (sum_list xs / real (length xs)))"

text \<open>The sample standard deviation (\<^verbatim>\<open>ddof=1\<close>), missing with fewer than two values.\<close>

definition std_of :: "real list \<Rightarrow> pyfloat" where
  "std_of xs =
     (if length xs < 2 then NaN
      else Fl (sqrt (sum_list (map (\<lambda>x. (x - sum_list xs / real (length xs))\<^sup>2) xs)
                     / real (length xs - 1))))"

definition month_key :: "int \<times> nat \<Rightarrow> int" where
  "month_key ym = fst ym * 12 + int (snd ym)"

text \<open>
  \<^verbatim>\<open>groupby('AnoMes')['Ventas'].agg(['mean', 'std', 'count']).reset_index()\<close> on the rows
  given as (period, sales cell): one row per month that occurs, in calendar order; rows
  with a missing date belong to no group.
\<close>

definition months_of :: "((int \<times> nat) option \<times> cell) list \<Rightarrow> (int \<times> nat) list" where
  "months_of df =
     sort_key month_key
       (remdups (concat (map (\<lambda>r. case fst r of None \<Rightarrow> [] | Some k \<Rightarrow> [k]) df)))"

definition month_row :: "(int \<times> nat) \<Rightarrow> real list \<Rightarrow> month_stats" where
  "month_row k xs =
     \<lparr>AnoMes = k, Media_Ventas = mean_of xs, Desviacion_Estandar = std_of xs,
      N_Observaciones = length xs\<rparr>"

fun agg_months ::
  "((int \<times> nat) option \<times> cell) list \<Rightarrow> (int \<times> nat) list \<Rightarrow> exn + month_stats list" where
  "agg_months df [] = Inr []"
| "agg_months df (k # ks) =
     (case numeric_values (map snd (filter (\<lambda>r. fst r = Some k) df)) of
        Inl e \<Rightarrow> Inl e
      | Inr xs \<Rightarrow>
          (case agg_months df ks of Inl e \<Rightarrow> Inl e | Inr ms \<Rightarrow> Inr (month_row k xs # ms)))"

definition monthly_sales :: "((int \<times> nat) option \<times> cell) list \<Rightarrow> exn + month_stats list" where
  "monthly_sales df =
     (case numeric_values (map snd df) of
        Inl e \<Rightarrow> Inl e
      | Inr _ \<Rightarrow> agg_months df (months_of df))"

text \<open>
  Division of floats. The only division of the script is by \<^verbatim>\<open>np.sqrt(n)\<close> with
  \<open>n > 1\<close>; a zero divisor, which numpy answers with an infinity or NaN, does not occur.
\<close>

fun fdiv :: "pyfloat \<Rightarrow> pyfloat \<Rightarrow> pyfloat" where
  "fdiv (Fl a) (Fl b) = (if b = 0 then NaN else Fl (a / b))"
| "fdiv _ _ = NaN"

text \<open>
  The body of the loop over the monthly rows (lines 40-66). \<open>intervalos\<close> is the test of
  line 45 and the arithmetic of lines 46-54: the bounds
  \<open>(lower_95, upper_95, lower_99, upper_99)\<close>, or nothing in the else branch.
\<close>

definition intervalos ::
  "'m lib \<Rightarrow> month_stats \<Rightarrow> (pyfloat \<times> pyfloat \<times> pyfloat \<times> pyfloat) option" where
  "intervalos lib row =
     (let media_ventas = Media_Ventas row;
          desviacion_estandar = Desviacion_Estandar row;
          n_observaciones = N_Observaciones row
      in if n_observaciones > 1 \<and> \<not> isna desviacion_estandar
         then
           (let se = fdiv desviacion_estandar (Fl (sqrt (real n_observaciones)));
                t_crit_95 = Fl (t_ppf lib (975 / 1000) (n_observaciones - 1));
                lower_95 = fsub media_ventas (fmul t_crit_95 se);
                upper_95 = fadd media_ventas (fmul t_crit_95 se);
                t_crit_99 = Fl (t_ppf lib (995 / 1000) (n_observaciones - 1));
                lower_99 = fsub media_ventas (fmul t_crit_99 se);
                upper_99 = fadd media_ventas (fmul t_crit_99 se)
            in Some (lower_95, upper_95, lower_99, upper_99))
         else None)"

definition ci_row :: "'m lib \<Rightarrow> month_stats \<Rightarrow> event list" where
  "ci_row lib row =
     (case intervalos lib row of
        Some ic \<Rightarrow>
          [Print ''Mes: {mes_ano}'' [Per (AnoMes row)],
           Print ''  Ventas Promedio: ${media_ventas:,.2f}'' [Flt (Media_Ventas row)],
           Print ''  N de Dias de Venta: {n_observaciones}'' [Cnt (N_Observaciones row)],
           Print ''  Desviacion Estandar (Ventas Diarias): ${desviacion_estandar:,.2f}''
             [Flt (Desviacion_Estandar row)],
           Print ''  IC 95%: [${lower_95:,.2f}, ${upper_95:,.2f}]''
             [Flt (fst ic), Flt (fst (snd ic))],
           Print ''  IC 99%: [${lower_99:,.2f}, ${upper_99:,.2f}]''
             [Flt (fst (snd (snd ic))), Flt (snd (snd (snd ic)))],
           Print (replicate 30 CHR ''-'') []]
      | None \<Rightarrow>
          [Print ''Mes: {mes_ano} - No hay suficientes datos ({n_observaciones} observaciones) o la desviacion estandar es nula para calcular el IC. Se necesitan al menos 2 dias de venta por mes.''
             [Per (AnoMes row), Cnt (N_Observaciones row)],
           Print (replicate 30 CHR ''-'') []])"

definition intervalos_santa_ana :: "'m lib \<Rightarrow> workbook \<Rightarrow> string \<Rightarrow> unit run" where
  "intervalos_santa_ana lib xls santa_ana_sheet_name =
     (if santa_ana_sheet_name \<in> set (map fst xls)
      then
        and_then
          ([Print ''--- 1. Intervalos de Confianza Empiricos para Santa Ana ---'' []],
           read_excel xls santa_ana_sheet_name)
          (\<lambda>df. and_then ([], set_columns [''Fecha'', ''Ventas''] df)
             (\<lambda>df_santa_ana. and_then
                ([Call ''pd.to_datetime''],
                 convert_dates lib (map (\<lambda>r. cell_at r 0) (rows df_santa_ana)))
                (\<lambda>fechas. and_then
                   ([], monthly_sales (zip (map to_period fechas)
                                           (map (\<lambda>r. cell_at r 1) (rows df_santa_ana))))
                   (\<lambda>monthly.
                      ([Print ''Estadisticas mensuales de ventas (agrupadas por mes):'' [],
                        Print ''{monthly_sales}'' [Stats monthly],
                        Print (replicate 50 CHR ''-'') []]
                       @ concat (map (ci_row lib) monthly)
                       @ [Print [] []], Inr ())))))
      else
        ([Print ''--- 1. Intervalos de Confianza Empiricos para Santa Ana ---'' [],
          Print ''La hoja {santa_ana_sheet_name} no se encontro en el archivo.''
            [Str santa_ana_sheet_name],
          Print [] []], Inr ()))"

subsection \<open>Section 2: the combined table and the ANOVA (lines 74-121)\<close>

definition read_sheet_main :: "string \<times> (exn + frame) \<Rightarrow> exn + sale list" where
  "read_sheet_main sh =
     (case snd sh of
        Inl e \<Rightarrow> Inl e
      | Inr df_temp \<Rightarrow>
          (case set_columns [''Fecha'', ''Ventas''] df_temp of
             Inl e \<Rightarrow> Inl e
           | Inr df2 \<Rightarrow> Inr (add_store (fst sh) df2)))"

text \<open>Lines 75-82.\<close>

definition combinar :: "workbook \<Rightarrow> exn + sale list" where
  "combinar xls =
     (case read_sheets read_sheet_main xls of
        Inl e \<Rightarrow> Inl e
      | Inr all_sales_data \<Rightarrow> pd_concat all_sales_data)"

text \<open>
  Lines 84-92: the \<^verbatim>\<open>if\<close>/\<^verbatim>\<open>elif\<close> before the ANOVA. The result is the table the
  function goes on with, or nothing when it returns at line 92. Only the branch of line 92
  leaves the function; after the message of line 85 control reaches line 93.
\<close>

definition preparar :: "sale list \<Rightarrow> event list \<times> sale list option" where
  "preparar df_all_sales =
     (if length (remdups (map Supermercado df_all_sales)) < 2
      then ([Print ''Se necesitan al menos dos supermercados para realizar ANOVA.'' []],
            Some df_all_sales)
      else if list_ex (\<lambda>r. Ventas r = NA) df_all_sales
      then (if dropna_ventas df_all_sales = []
            then ([Print ''Advertencia: Se encontraron valores nulos en las ventas. Eliminandolos para ANOVA.'' [],
                   Print ''No quedan datos despues de eliminar los nulos. No se puede realizar ANOVA.'' []],
                  None)
            else ([Print ''Advertencia: Se encontraron valores nulos en las ventas. Eliminandolos para ANOVA.'' []],
                  Some (dropna_ventas df_all_sales)))
      else ([], Some df_all_sales))"

text \<open>
  Lines 105-109: the p-value of the store factor, or the first \<^verbatim>\<open>PR(>F)\<close> of the table
  when the factor's label is not in the index.
\<close>

definition p_value_lookup :: "(string \<times> pyfloat) list \<Rightarrow> exn + pyfloat" where
  "p_value_lookup anova_table =
     (if ''C(Supermercado)'' \<in> set (map fst anova_table)
      then loc_pr anova_table ''C(Supermercado)''
      else (case anova_table of [] \<Rightarrow> Inl IndexError | row # _ \<Rightarrow> Inr (snd row)))"

text \<open>Lines 93-121. The result is \<^verbatim>\<open>p_value_anova\<close>.\<close>

definition anova_main :: "'m lib \<Rightarrow> sale list \<Rightarrow> pyfloat run" where
  "anova_main lib df_all_sales =
     and_then
       ([Print ''Datos combinados de ventas de {len(df_all_sales[Supermercado].unique())} supermercados.''
           [Cnt (length (remdups (map Supermercado df_all_sales)))],
         Print ''Primeras filas de datos combinados:'' [],
         Print ''{df_all_sales.head()}'' [Tbl (take 5 df_all_sales)],
         Call ''ols.fit''], ols_fit lib df_all_sales)
       (\<lambda>model. and_then ([Call ''anova_lm''], anova_lm lib model)
          (\<lambda>anova_table. and_then
             ([Print ''Tabla ANOVA:'' [],
               Print ''{anova_table}'' [Anova anova_table]], p_value_lookup anova_table)
             (\<lambda>p_value_anova.
                ((if flt p_value_anova alpha
                  then [Print ''Con un nivel de significancia del {alpha*100}%, rechazamos la hipotesis nula.'' [Flt (fmul alpha (Fl 100))],
                        Print ''Hay evidencia estadistica de que las ventas esperadas de al menos un supermercado son diferentes.'' [],
                        Print ''Esto sugiere que no todas las tiendas se comportan de la misma manera en terminos de ventas.'' []]
                  else [Print ''Con un nivel de significancia del {alpha*100}%, no rechazamos la hipotesis nula.'' [Flt (fmul alpha (Fl 100))],
                        Print ''No hay evidencia estadistica de que las ventas esperadas de los supermercados sean diferentes.'' [],
                        Print ''Las ventas promedio de los supermercados son estadisticamente similares.'' []])
                 @ [Print [] []], Inr p_value_anova))))"

subsection \<open>Section 3: the stores with the highest and the lowest mean (lines 124-189)\<close>

text \<open>
  \<^verbatim>\<open>groupby('Supermercado')['Ventas'].mean()\<close>: one mean per store, stores in sorted
  order.
\<close>

fun agg_stores :: "sale list \<Rightarrow> string list \<Rightarrow> exn + (string \<times> pyfloat) list" where
  "agg_stores df [] = Inr []"
| "agg_stores df (s # ss) =
     (case numeric_values (map Ventas (filter (\<lambda>r. Supermercado r = s) df)) of
        Inl e \<Rightarrow> Inl e
      | Inr xs \<Rightarrow>
          (case agg_stores df ss of Inl e \<Rightarrow> Inl e | Inr ms \<Rightarrow> Inr ((s, mean_of xs) # ms)))"

definition group_means :: "sale list \<Rightarrow> exn + (string \<times> pyfloat) list" where
  "group_means df =
     (case numeric_values (map Ventas df) of
        Inl e \<Rightarrow> Inl e
      | Inr _ \<Rightarrow> agg_stores df (stores df))"

text \<open>
  \<^verbatim>\<open>.sort_values(ascending=False)\<close>: descending by value, missing values last, equal
  values in their previous order.
\<close>

definition sort_values_desc :: "(string \<times> pyfloat) list \<Rightarrow> (string \<times> pyfloat) list" where
  "sort_values_desc ser =
     sort_key (\<lambda>kv. case snd kv of Fl x \<Rightarrow> - x | NaN \<Rightarrow> 0) (filter (\<lambda>kv. \<not> isna (snd kv)) ser)
     @ filter (\<lambda>kv. isna (snd kv)) ser"

text \<open>\<^verbatim>\<open>index[0]\<close> and \<^verbatim>\<open>index[-1]\<close> with their values; an empty series has neither.\<close>

fun first_last :: "'a list \<Rightarrow> exn + ('a \<times> 'a)" where
  "first_last [] = Inl IndexError"
| "first_last (x # xs) = Inr (x, last (x # xs))"

text \<open>Lines 152-156: the rows of the Tukey table for the two stores, in either order.\<close>

definition specific_comparison :: "tukey_row list \<Rightarrow> string \<Rightarrow> string \<Rightarrow> tukey_row list" where
  "specific_comparison tukey_df supermarket_highest_sales supermarket_lowest_sales =
     filter (\<lambda>r. (group1 r = supermarket_highest_sales \<and> group2 r = supermarket_lowest_sales)
                \<or> (group1 r = supermarket_lowest_sales \<and> group2 r = supermarket_highest_sales))
            tukey_df"

text \<open>
  Lines 158-165: \<open>(mean_diff_tukey, p_value_tukey)\<close> as printed, from the first matching row;
  nothing when no row matches.
\<close>

definition extremos :: "tukey_row list \<Rightarrow> string \<Rightarrow> string \<Rightarrow> (pyfloat \<times> pyfloat) option" where
  "extremos tukey_df supermarket_highest_sales supermarket_lowest_sales =
     (case specific_comparison tukey_df supermarket_highest_sales supermarket_lowest_sales of
        [] \<Rightarrow> None
      | r # _ \<Rightarrow>
          Some (if group1 r = supermarket_lowest_sales then fmul (meandiff r) (Fl (- 1))
                else meandiff r,
                p_adj r))"

text \<open>Lines 151-184.\<close>

definition informe_extremos :: "tukey_row list \<Rightarrow> string \<Rightarrow> string \<Rightarrow> event list" where
  "informe_extremos tukey_df supermarket_highest_sales supermarket_lowest_sales =
     (case extremos tukey_df supermarket_highest_sales supermarket_lowest_sales of
        Some res \<Rightarrow>
          [Print ''Comparacion especifica entre {supermarket_highest_sales} y {supermarket_lowest_sales}:''
             [Str supermarket_highest_sales, Str supermarket_lowest_sales],
           Print ''  Diferencia de medias: ${mean_diff_tukey:,.2f}'' [Flt (fst res)],
           Print ''  P-value (Tukey HSD): {p_value_tukey:.4f}'' [Flt (snd res)]]
          @ (if flt (snd res) alpha
             then [Print ''La diferencia entre las ventas de la tienda con mayor y menor promedio es estadisticamente significativa.'' [],
                   Print ''Esto sugiere que {supermarket_lowest_sales} realmente tiene ventas peores y podria necesitar mas atencion.'' [Str supermarket_lowest_sales]]
             else [Print ''La diferencia entre las ventas de la tienda con mayor y menor promedio NO es estadisticamente significativa.'' [],
                   Print ''Las diferencias observadas podrian ser debidas al azar.'' []])
      | None \<Rightarrow>
          [Print ''No se encontro una comparacion directa entre {supermarket_highest_sales} y {supermarket_lowest_sales} en los resultados de Tukey HSD.''
             [Str supermarket_highest_sales, Str supermarket_lowest_sales],
           Print ''Esto es inusual si ambas tiendas estan en el dataset. Verifique los nombres.'' []])"

text \<open>Lines 135-186, once the two extreme stores are known.\<close>

definition comparar_extremos ::
  "'m lib \<Rightarrow> sale list \<Rightarrow> pyfloat \<Rightarrow> (string \<times> pyfloat) \<times> (string \<times> pyfloat) \<Rightarrow> unit run" where
  "comparar_extremos lib df_all_sales p_value_anova ext =
     and_then
       ([Print ''Tienda con mayor promedio de ventas: {supermarket_highest_sales} (${avg_sales_by_supermarket.iloc[0]:,.2f})''
           [Str (fst (fst ext)), Flt (snd (fst ext))],
         Print ''Tienda con menor promedio de ventas: {supermarket_lowest_sales} (${avg_sales_by_supermarket.iloc[-1]:,.2f})''
           [Str (fst (snd ext)), Flt (snd (snd ext))]], Inr ())
       (\<lambda>_. if flt p_value_anova alpha
            then and_then
                   ([Print ''Realizando prueba de Tukey HSD (Post-hoc ANOVA) para comparaciones pareadas:'' [],
                     Call ''pairwise_tukeyhsd''], pairwise_tukeyhsd lib df_all_sales)
                   (\<lambda>tukey_result.
                      ([Print ''{tukey_result}'' [Tukey tukey_result]]
                       @ informe_extremos tukey_result (fst (fst ext)) (fst (snd ext)), Inr ()))
            else ([Print ''El ANOVA no encontro diferencias significativas, por lo que una prueba post-hoc directa entre las tiendas con mayor y menor promedio no es estadisticamente necesaria para confirmar una diferencia global. Las diferencias observadas son probablemente debidas al azar.'' []],
                  Inr ()))"

text \<open>Lines 124-189.\<close>

definition comparacion :: "'m lib \<Rightarrow> sale list \<Rightarrow> pyfloat \<Rightarrow> unit run" where
  "comparacion lib df_all_sales p_value_anova =
     and_then
       ([Print ''--- 3. Comparacion de la Tienda con Mayor y Menor Promedio de Ventas ---'' []],
        Inr ())
       (\<lambda>_. and_then
          (if df_all_sales \<noteq> []
           then and_then ([], group_means df_all_sales)
                  (\<lambda>means. and_then
                     ([Print ''Promedio de ventas por supermercado:'' [],
                       Print ''{avg_sales_by_supermarket}'' [Means (sort_values_desc means)]],
                      first_last (sort_values_desc means))
                     (\<lambda>ext. comparar_extremos lib df_all_sales p_value_anova ext))
           else ([Print ''No hay datos disponibles para realizar la comparacion de tiendas.'' []],
                 Inr ()))
          (\<lambda>_. ([Print [] []], Inr ())))"

subsection \<open>The function\<close>

text \<open>Sections 2 and 3; they do not depend on the name of the reference sheet.\<close>

definition anova_y_comparacion :: "'m lib \<Rightarrow> workbook \<Rightarrow> unit run" where
  "anova_y_comparacion lib xls =
     and_then
       ([Print ''--- 2. Pruebas ANOVA para Comparar Ventas de Todas las Tiendas ---'' []],
        combinar xls)
       (\<lambda>df0.
          (case snd (preparar df0) of
             None \<Rightarrow> (fst (preparar df0), Inr ())
           | Some df_all_sales \<Rightarrow>
               and_then (fst (preparar df0), Inr ())
                 (\<lambda>_. and_then (anova_main lib df_all_sales)
                    (\<lambda>p_value_anova. comparacion lib df_all_sales p_value_anova))))"

text \<open>
  Nothing in \<^verbatim>\<open>analyze_sales_data\<close> catches an exception: what \<^verbatim>\<open>pd.ExcelFile\<close>
  raises at line 17 leaves the function, before anything is printed.
\<close>

definition analyze_sales_data :: "'m lib \<Rightarrow> string \<Rightarrow> string \<Rightarrow> unit run" where
  "analyze_sales_data lib file_path santa_ana_sheet_name =
     (case ExcelFile lib file_path of
        Inl e \<Rightarrow> ([], Inl e)
      | Inr xls \<Rightarrow>
          and_then (intervalos_santa_ana lib xls santa_ana_sheet_name)
            (\<lambda>_. anova_y_comparacion lib xls))"

section \<open>Demonstration inputs\<close>

text \<open>Events that are not console output: calls into the statistics library and files written.\<close>

fun is_effect :: "event \<Rightarrow> bool" where
  "is_effect (Print s a) = False"
| "is_effect (Call s) = True"
| "is_effect (SaveFig s) = True"

text \<open>A file system with no file at all; the statistics are never reached.\<close>

definition no_files :: "unit lib" where
  "no_files =
     \<lparr>files = (\<lambda>p. None), levene = (\<lambda>x. Inl ValueError), ols_fit = (\<lambda>d. Inl ValueError),
      resid = (\<lambda>m. []), shapiro = (\<lambda>x. Inl ValueError), anova_lm = (\<lambda>m. Inl ValueError),
      pairwise_tukeyhsd = (\<lambda>d. Inl ValueError), t_ppf = (\<lambda>q d. 0),
      to_datetime = (\<lambda>c. Inr None)\<rparr>"

text \<open>
  A workbook with two stores and three days each. The statistics are those the library gives
  for it, rounded: the p-value of the ANOVA is a parameter, the Tukey table has the one pair, in
  the order of the sorted labels, with the mean of \<open>group2\<close> minus the mean of \<open>group1\<close>.
\<close>

definition demo_book :: workbook where
  "demo_book =
     [(''Centro'', Inr \<lparr>columns = [''Dia'', ''Importe''],
                        rows = [[Date 2024 1 5, Num 9], [Date 2024 1 6, Num 11],
                                [Date 2024 2 1, Num 10]]\<rparr>),
      (''Santa Ana'', Inr \<lparr>columns = [''Dia'', ''Importe''],
                        rows = [[Date 2024 1 5, Num 3], [Date 2024 1 6, Num 5],
                                [Date 2024 2 1, Num 4]]\<rparr>)]"

definition demo_table :: "sale list" where
  "demo_table =
     [\<lparr>Fecha = Date 2024 1 5, Ventas = Num 9, Supermercado = ''Centro''\<rparr>,
      \<lparr>Fecha = Date 2024 1 6, Ventas = Num 11, Supermercado = ''Centro''\<rparr>,
      \<lparr>Fecha = Date 2024 2 1, Ventas = Num 10, Supermercado = ''Centro''\<rparr>,
      \<lparr>Fecha = Date 2024 1 5, Ventas = Num 3, Supermercado = ''Santa Ana''\<rparr>,
      \<lparr>Fecha = Date 2024 1 6, Ventas = Num 5, Supermercado = ''Santa Ana''\<rparr>,
      \<lparr>Fecha = Date 2024 2 1, Ventas = Num 4, Supermercado = ''Santa Ana''\<rparr>]"

definition demo_lib :: "pyfloat \<Rightarrow> unit lib" where
  "demo_lib p =
     \<lparr>files = (\<lambda>path. if path = ''ventas.xlsx'' then Some (Inr demo_book) else None),
      levene = (\<lambda>x. Inr (Fl 0, Fl 1)),
      ols_fit = (\<lambda>d. Inr ()),
      resid = (\<lambda>m. []),
      shapiro = (\<lambda>x. Inr (Fl 1, Fl 1)),
      anova_lm = (\<lambda>m. Inr [(''C(Supermercado)'', p), (''Residual'', NaN)]),
      pairwise_tukeyhsd =
        (\<lambda>d. Inr [\<lparr>group1 = ''Centro'', group2 = ''Santa Ana'', meandiff = Fl (- 6),
                     p_adj = Fl (18 / 10000), reject = True\<rparr>]),
      t_ppf = (\<lambda>q d. if q = 975 / 1000 then (if d = 1 then 127062 / 10000 else 43027 / 10000)
                     else (if d = 1 then 636567 / 10000 else 99248 / 10000)),
      to_datetime = (\<lambda>c. case c of Date y m d \<Rightarrow> Inr (Some (y, m, d)) | NA \<Rightarrow> Inr None
                              | _ \<Rightarrow> Inl ValueError)\<rparr>"

text \<open>
  The console lines of section 2 of \<^verbatim>\<open>anova.py\<close> that report the outcome of the Levene
  and the Shapiro-Wilk test (lines 57-62 and 66-70): the two p-values and the two conclusions.
\<close>

fun assumption_diagnostic :: "event \<Rightarrow> bool" where
  "assumption_diagnostic (Print s a) =
     (s \<in> set [''   p-valor = {levene_p:.4f}'',
               ''   Conclusion: Se cumple el requisito de homogeneidad de varianzas. '',
               ''   Conclusion: NO se cumple el requisito de homogeneidad de varianzas. '',
               ''   p-valor = {shapiro_p:.4f}'',
               ''   Conclusion: Se cumple el requisito de normalidad. '',
               ''   Conclusion: NO se cumple el requisito de normalidad. ''])"
| "assumption_diagnostic _ = False"

section \<open>Properties\<close>

text \<open>
  C10. In \<^verbatim>\<open>analisis_anova_completo\<close>, when loading the workbook raises any exception
  (file not found or another one), the function prints the loading banner and the error
  message and returns: the outcome is a normal return, the trace holds no library call and no
  image file, and nothing is printed after the error message.
\<close>

theorem load_failure_returns:
  assumes "load_data lib ruta = Inl e"
  shows "snd (analisis_anova_completo lib ruta) = Inr ()
    \<and> filter is_effect (fst (analisis_anova_completo lib ruta)) = []
    \<and> fst (analisis_anova_completo lib ruta) =
        Print ''--- 0. CARGANDO Y PREPARANDO DATOS ---'' [] #
        (if e = FileNotFoundError
         then [Print ''ERROR: No se encontro el archivo en la ruta {ruta_archivo_excel}.'' [Str ruta],
               Print ''Por favor, asegurate de que el archivo ha sido subido y la ruta es correcta.'' []]
         else [Print ''Ocurrio un error inesperado al cargar los datos: {e}'' [Exc e]])"
  using assms by (simp add: analisis_anova_completo_def)

theorem load_failure_returns_witness:
  "load_data no_files ''x.xlsx'' = Inl FileNotFoundError
   \<and> snd (analisis_anova_completo no_files ''x.xlsx'') = Inr ()
   \<and> filter is_effect (fst (analisis_anova_completo no_files ''x.xlsx'')) = []"
proof -
  have h: "load_data no_files ''x.xlsx'' = Inl FileNotFoundError"
    by (simp add: load_data_def ExcelFile_def no_files_def)
  show ?thesis using h load_failure_returns [OF h] by simp
qed

subsection \<open>Sequencing and the demonstration workbook\<close>

lemma and_then_Inr [simp]: "and_then (tr, Inr a) f = (tr @ fst (f a), snd (f a))"
  by (simp add: and_then_def)

lemma and_then_Inl [simp]: "and_then (tr, Inl e) f = (tr, Inl e)"
  by (simp add: and_then_def)

lemma in_and_then:
  "x \<in> set (fst (and_then m f))
     \<longleftrightarrow> x \<in> set (fst m) \<or> (\<exists>a. snd m = Inr a \<and> x \<in> set (fst (f a)))"
  by (cases "snd m") (auto simp: and_then_def)

lemma demo_load: "load_data (demo_lib p) ''ventas.xlsx'' = Inr demo_table"
  by (simp add: load_data_def ExcelFile_def demo_lib_def demo_book_def read_sheet_anova_def
      iloc_first_two_def set_columns_def add_store_def pd_concat_def dropna_ventas_def
      demo_table_def)

lemma demo_combinar: "combinar demo_book = Inr demo_table"
  by (simp add: combinar_def demo_book_def read_sheet_main_def
      set_columns_def add_store_def pd_concat_def demo_table_def)

lemma demo_preparar: "preparar demo_table = ([], Some demo_table)"
  by (simp add: preparar_def demo_table_def)

lemma demo_stores: "stores demo_table = [''Centro'', ''Santa Ana'']"
  by code_simp

lemma demo_means: "group_means demo_table = Inr [(''Centro'', Fl 10), (''Santa Ana'', Fl 4)]"
  unfolding group_means_def demo_stores by (simp add: demo_table_def mean_of_def)

lemma demo_section1: "snd (intervalos_santa_ana (demo_lib p) demo_book ''Otra'') = Inr ()"
  by (simp add: intervalos_santa_ana_def demo_book_def)

lemma demo_lib_results:
  "levene (demo_lib p) (samples demo_table) = Inr (Fl 0, Fl 1)
   \<and> ols_fit (demo_lib p) demo_table = Inr ()
   \<and> shapiro (demo_lib p) (resid (demo_lib p) ()) = Inr (Fl 1, Fl 1)
   \<and> anova_lm (demo_lib p) () = Inr [(''C(Supermercado)'', p), (''Residual'', NaN)]
   \<and> ExcelFile (demo_lib p) ''ventas.xlsx'' = Inr demo_book"
  by (simp add: demo_lib_def ExcelFile_def)

lemma demo_lookup:
  "loc_pr [(''C(Supermercado)'', p), (''Residual'', NaN)] ''C(Supermercado)'' = Inr p
   \<and> p_value_lookup [(''C(Supermercado)'', p), (''Residual'', NaN)] = Inr p"
  by (simp add: loc_pr_def p_value_lookup_def)

subsection \<open>The post-hoc comparison and the ANOVA p-value\<close>

lemma anova_post_hoc:
  assumes "load_data lib ruta = Inr df" "levene lib (samples df) = Inr lev"
    "ols_fit lib df = Inr model" "shapiro lib (resid lib model) = Inr sha"
    "anova_lm lib model = Inr tabla" "loc_pr tabla ''C(Supermercado)'' = Inr p"
  shows "Call ''pairwise_tukeyhsd'' \<in> set (fst (analisis_anova_completo lib ruta))
         \<longleftrightarrow> flt p alpha"
  using assms
  by (auto simp: analisis_anova_completo_def planteamiento_def verificacion_def graficos_def
      contraste_def a_posteriori_def in_and_then)

lemma ci_row_no_call: "Call c \<notin> set (ci_row lib row)"
  by (simp add: ci_row_def split: option.splits)

lemma intervalos_santa_ana_calls:
  "Call c \<in> set (fst (intervalos_santa_ana lib xls name)) \<Longrightarrow> c = ''pd.to_datetime''"
  by (auto simp: intervalos_santa_ana_def in_and_then ci_row_no_call split: if_splits)

lemma length_agg_stores: "agg_stores df ss = Inr ms \<Longrightarrow> length ms = length ss"
  by (induction ss arbitrary: ms) (auto split: sum.splits)

lemma length_sort_values_desc: "length (sort_values_desc ser) = length ser"
  by (induction ser) (auto simp: sort_values_desc_def)

lemma stores_nonempty: "df \<noteq> [] \<Longrightarrow> stores df \<noteq> []"
proof -
  assume "df \<noteq> []"
  have "set (stores df) = Supermercado ` set df" by (simp add: stores_def)
  with \<open>df \<noteq> []\<close> have "set (stores df) \<noteq> {}" by simp
  then show ?thesis by auto
qed

lemma first_last_means:
  assumes "group_means df = Inr means" "df \<noteq> []"
  shows "\<exists>ext. first_last (sort_values_desc means) = Inr ext"
proof -
  from assms(1) have "agg_stores df (stores df) = Inr means"
    by (simp add: group_means_def split: sum.splits)
  then have "length means = length (stores df)" by (rule length_agg_stores)
  with assms(2) have "sort_values_desc means \<noteq> []"
    using stores_nonempty [of df] length_sort_values_desc [of means] by auto
  then show ?thesis by (cases "sort_values_desc means") auto
qed

lemma main_post_hoc:
  assumes "ExcelFile lib path = Inr xls"
    "snd (intervalos_santa_ana lib xls name) = Inr u"
    "combinar xls = Inr df0" "snd (preparar df0) = Some df" "df \<noteq> []"
    "ols_fit lib df = Inr model" "anova_lm lib model = Inr tabla"
    "p_value_lookup tabla = Inr p" "group_means df = Inr means"
  shows "Call ''pairwise_tukeyhsd'' \<in> set (fst (analyze_sales_data lib path name))
         \<longleftrightarrow> flt p alpha"
proof -
  obtain ext where ext: "first_last (sort_values_desc means) = Inr ext"
    using first_last_means [OF assms(9) assms(5)] by blast
  have s1: "Call ''pairwise_tukeyhsd'' \<notin> set (fst (intervalos_santa_ana lib xls name))"
    using intervalos_santa_ana_calls by fastforce
  have pr: "Call ''pairwise_tukeyhsd'' \<notin> set (fst (preparar df0))"
    by (simp add: preparar_def)
  show ?thesis
    using assms ext s1 pr
    by (simp add: analyze_sales_data_def anova_y_comparacion_def anova_main_def
        comparacion_def comparar_extremos_def in_and_then)
qed

text \<open>
  C1. Whenever a run obtains the p-value of the ANOVA (every library call on the way
  succeeds), the Tukey HSD comparison is called if and only if that p-value is strictly below
  0.05, in \<^verbatim>\<open>analisis_anova_completo\<close> and in \<^verbatim>\<open>analyze_sales_data\<close>; a p-value equal
  to 0.05 is not below it. In \<^verbatim>\<open>analyze_sales_data\<close> the comparison sits under the test
  that the combined table has rows (line 126) and after the per-store means, so the table
  is taken to be non-empty and the means to be computed.
\<close>

theorem post_hoc_iff_anova_significant:
  "(load_data lib ruta = Inr df \<and> levene lib (samples df) = Inr lev
      \<and> ols_fit lib df = Inr model \<and> shapiro lib (resid lib model) = Inr sha
      \<and> anova_lm lib model = Inr tabla \<and> loc_pr tabla ''C(Supermercado)'' = Inr p
    \<longrightarrow> (Call ''pairwise_tukeyhsd'' \<in> set (fst (analisis_anova_completo lib ruta))
           \<longleftrightarrow> flt p alpha))
   \<and> (ExcelFile lib file_path = Inr xls
      \<and> snd (intervalos_santa_ana lib xls santa_ana) = Inr u
      \<and> combinar xls = Inr df0 \<and> snd (preparar df0) = Some df' \<and> df' \<noteq> []
      \<and> ols_fit lib df' = Inr model' \<and> anova_lm lib model' = Inr tabla'
      \<and> p_value_lookup tabla' = Inr p' \<and> group_means df' = Inr means
    \<longrightarrow> (Call ''pairwise_tukeyhsd'' \<in> set (fst (analyze_sales_data lib file_path santa_ana))
           \<longleftrightarrow> flt p' alpha))
   \<and> \<not> flt alpha alpha"
  using anova_post_hoc [of lib ruta df lev model sha tabla p]
    main_post_hoc [of lib file_path xls santa_ana u df0 df' model' tabla' p' means]
  by (simp add: alpha_def)

theorem post_hoc_iff_anova_significant_witness:
  "load_data (demo_lib (Fl (18 / 10000))) ''ventas.xlsx'' = Inr demo_table
   \<and> Call ''pairwise_tukeyhsd''
       \<in> set (fst (analisis_anova_completo (demo_lib (Fl (18 / 10000))) ''ventas.xlsx''))
   \<and> Call ''pairwise_tukeyhsd''
       \<notin> set (fst (analisis_anova_completo (demo_lib alpha) ''ventas.xlsx''))
   \<and> Call ''pairwise_tukeyhsd''
       \<in> set (fst (analyze_sales_data (demo_lib (Fl (18 / 10000))) ''ventas.xlsx'' ''Otra''))
   \<and> Call ''pairwise_tukeyhsd''
       \<notin> set (fst (analyze_sales_data (demo_lib alpha) ''ventas.xlsx'' ''Otra''))"
proof -
  have ne: "demo_table \<noteq> []" by (simp add: demo_table_def)
  have sig: "flt (Fl (18 / 10000)) alpha" by (simp add: alpha_def)
  note a = post_hoc_iff_anova_significant
    [of "demo_lib (Fl (18 / 10000))" "''ventas.xlsx''" demo_table "(Fl 0, Fl 1)" "()" "(Fl 1, Fl 1)"
        "[(''C(Supermercado)'', Fl (18 / 10000)), (''Residual'', NaN)]" "Fl (18 / 10000)"
        "''ventas.xlsx''" demo_book "''Otra''" "()" demo_table demo_table "()"
        "[(''C(Supermercado)'', Fl (18 / 10000)), (''Residual'', NaN)]" "Fl (18 / 10000)"
        "[(''Centro'', Fl 10), (''Santa Ana'', Fl 4)]"]
  note b = post_hoc_iff_anova_significant
    [of "demo_lib alpha" "''ventas.xlsx''" demo_table "(Fl 0, Fl 1)" "()" "(Fl 1, Fl 1)"
        "[(''C(Supermercado)'', alpha), (''Residual'', NaN)]" alpha
        "''ventas.xlsx''" demo_book "''Otra''" "()" demo_table demo_table "()"
        "[(''C(Supermercado)'', alpha), (''Residual'', NaN)]" alpha
        "[(''Centro'', Fl 10), (''Santa Ana'', Fl 4)]"]
  show ?thesis
    using a b demo_lib_results demo_lookup ne sig demo_load demo_combinar demo_preparar
      demo_means demo_section1
    by simp
qed

subsection \<open>A path with no file\<close>

text \<open>
  C3. For a path with no file, \<^verbatim>\<open>analisis_anova_completo\<close> prints the loading banner and
  the two lines of the file-not-found message and returns normally, with nothing after them.
  \<^verbatim>\<open>analyze_sales_data\<close> has no handler: the \<^verbatim>\<open>FileNotFoundError\<close> of
  \<^verbatim>\<open>pd.ExcelFile\<close> leaves the function, and nothing is printed at all.
\<close>

theorem missing_file:
  assumes "files lib path = None"
  shows "analisis_anova_completo lib path =
           ([Print ''--- 0. CARGANDO Y PREPARANDO DATOS ---'' [],
             Print ''ERROR: No se encontro el archivo en la ruta {ruta_archivo_excel}.'' [Str path],
             Print ''Por favor, asegurate de que el archivo ha sido subido y la ruta es correcta.'' []],
            Inr ())
         \<and> analyze_sales_data lib path name = ([], Inl FileNotFoundError)"
  using assms
  by (simp add: analisis_anova_completo_def load_data_def analyze_sales_data_def ExcelFile_def)

theorem missing_file_witness:
  "files no_files ''no.xlsx'' = None
   \<and> snd (analisis_anova_completo no_files ''no.xlsx'') = Inr ()
   \<and> length (fst (analisis_anova_completo no_files ''no.xlsx'')) = 3
   \<and> snd (analyze_sales_data no_files ''no.xlsx'' ''Santa Ana'') = Inl FileNotFoundError"
proof -
  have h: "files no_files ''no.xlsx'' = None" by (simp add: no_files_def)
  show ?thesis using h missing_file [OF h, of "''Santa Ana''"] by simp
qed

text \<open>
  The claim as stated fails for \<^verbatim>\<open>analyze_sales_data\<close>: with no file at the path the run
  ends in the exception and its console output is empty.
\<close>

theorem missing_file_main_raises:
  "files no_files ''x.xlsx'' = None
   \<and> analyze_sales_data no_files ''x.xlsx'' ''Santa Ana'' = ([], Inl FileNotFoundError)"
  by (simp add: analyze_sales_data_def ExcelFile_def no_files_def)

subsection \<open>The assumption tests of anova.py\<close>

lemma load_data_tests [simp]:
  "load_data (lib\<lparr>levene := l, shapiro := s\<rparr>) ruta = load_data lib ruta"
  by (simp add: load_data_def ExcelFile_def)

lemma contraste_tests [simp]:
  "contraste (lib\<lparr>levene := l, shapiro := s\<rparr>) model = contraste lib model"
  by (simp add: contraste_def)

lemma a_posteriori_tests [simp]:
  "a_posteriori (lib\<lparr>levene := l, shapiro := s\<rparr>) df b = a_posteriori lib df b"
  by (simp add: a_posteriori_def)

lemma filter_and_then:
  "filter Q (fst (and_then m f)) =
     filter Q (fst m) @ (case snd m of Inl e \<Rightarrow> [] | Inr a \<Rightarrow> filter Q (fst (f a)))"
  by (cases "snd m") (simp_all add: and_then_def)

lemma snd_and_then:
  "snd (and_then m f) = (case snd m of Inl e \<Rightarrow> Inl e | Inr a \<Rightarrow> snd (f a))"
  by (cases "snd m") (simp_all add: and_then_def)

text \<open>With both tests returning, section 2 ends as the model fit does.\<close>

lemma verificacion_outcome:
  "snd (verificacion (lib\<lparr>levene := (\<lambda>x. Inr lev), shapiro := (\<lambda>x. Inr sha)\<rparr>) df)
   = ols_fit lib df"
  by (cases "ols_fit lib df") (simp_all add: verificacion_def)

lemma verificacion_trace:
  "filter (\<lambda>e. \<not> assumption_diagnostic e)
     (fst (verificacion (lib\<lparr>levene := (\<lambda>x. Inr lev), shapiro := (\<lambda>x. Inr sha)\<rparr>) df))
   = [Print ''--- 2. VERIFICACION DE REQUISITOS DEL ANOVA ---'' [],
      Print ''a) Independencia: Se asume que las observaciones son independientes por el diseno del estudio.'' [],
      Print ''b) Prueba de Homogeneidad de Varianzas (Levene):'' [],
      Call ''stats.levene'',
      Print ''c) Prueba de Normalidad de los Residuos (Shapiro-Wilk):'' [],
      Call ''ols.fit'']
     @ (case ols_fit lib df of Inl e \<Rightarrow> [] | Inr m \<Rightarrow> [Call ''stats.shapiro''])"
  by (cases "ols_fit lib df") (simp_all add: verificacion_def)

lemma analisis_filtered:
  "filter (\<lambda>e. \<not> assumption_diagnostic e)
      (fst (analisis_anova_completo
              (lib\<lparr>levene := (\<lambda>x. Inr lev), shapiro := (\<lambda>x. Inr sha)\<rparr>) ruta))
   = filter (\<lambda>e. \<not> assumption_diagnostic e)
      (fst (analisis_anova_completo
              (lib\<lparr>levene := (\<lambda>x. Inr lev'), shapiro := (\<lambda>x. Inr sha')\<rparr>) ruta))"
  unfolding analisis_anova_completo_def load_data_tests
  by (cases "load_data lib ruta")
     (simp_all only: sum.case filter_and_then snd_and_then verificacion_trace
        verificacion_outcome contraste_tests a_posteriori_tests fst_conv snd_conv)

lemma analisis_outcome:
  "snd (analisis_anova_completo
          (lib\<lparr>levene := (\<lambda>x. Inr lev), shapiro := (\<lambda>x. Inr sha)\<rparr>) ruta)
   = snd (analisis_anova_completo
            (lib\<lparr>levene := (\<lambda>x. Inr lev'), shapiro := (\<lambda>x. Inr sha')\<rparr>) ruta)"
  unfolding analisis_anova_completo_def load_data_tests
  by (cases "load_data lib ruta")
     (simp_all only: sum.case snd_and_then verificacion_outcome
        contraste_tests a_posteriori_tests fst_conv snd_conv)

lemma effect_not_diagnostic:
  "is_effect e \<Longrightarrow> (e \<in> set (filter (\<lambda>e. \<not> assumption_diagnostic e) tr) \<longleftrightarrow> e \<in> set tr)"
  by (cases e) simp_all

text \<open>
  C8. In \<^verbatim>\<open>analisis_anova_completo\<close> the Levene and the Shapiro-Wilk test are advisory.
  Take any library and path and any two pairs of results \<open>(statistic, p-value)\<close> the two tests
  may return. The two runs have the same outcome, and their traces are the same once the
  lines that report the two tests are left out: the same library calls, the same ANOVA table
  and p-value printed, the same conclusion; in particular the post-hoc comparison is called in
  the one run exactly when it is called in the other.
\<close>

theorem assumption_tests_advisory:
  "filter (\<lambda>e. \<not> assumption_diagnostic e)
      (fst (analisis_anova_completo
              (lib\<lparr>levene := (\<lambda>x. Inr lev), shapiro := (\<lambda>x. Inr sha)\<rparr>) ruta))
   = filter (\<lambda>e. \<not> assumption_diagnostic e)
      (fst (analisis_anova_completo
              (lib\<lparr>levene := (\<lambda>x. Inr lev'), shapiro := (\<lambda>x. Inr sha')\<rparr>) ruta))
   \<and> snd (analisis_anova_completo
            (lib\<lparr>levene := (\<lambda>x. Inr lev), shapiro := (\<lambda>x. Inr sha)\<rparr>) ruta)
     = snd (analisis_anova_completo
              (lib\<lparr>levene := (\<lambda>x. Inr lev'), shapiro := (\<lambda>x. Inr sha')\<rparr>) ruta)
   \<and> (Call ''pairwise_tukeyhsd''
         \<in> set (fst (analisis_anova_completo
                  (lib\<lparr>levene := (\<lambda>x. Inr lev), shapiro := (\<lambda>x. Inr sha)\<rparr>) ruta))
       \<longleftrightarrow> Call ''pairwise_tukeyhsd''
         \<in> set (fst (analisis_anova_completo
                  (lib\<lparr>levene := (\<lambda>x. Inr lev'), shapiro := (\<lambda>x. Inr sha')\<rparr>) ruta)))"
proof -
  let ?a = "fst (analisis_anova_completo
                   (lib\<lparr>levene := (\<lambda>x. Inr lev), shapiro := (\<lambda>x. Inr sha)\<rparr>) ruta)"
  let ?b = "fst (analisis_anova_completo
                   (lib\<lparr>levene := (\<lambda>x. Inr lev'), shapiro := (\<lambda>x. Inr sha')\<rparr>) ruta)"
  have tr: "filter (\<lambda>e. \<not> assumption_diagnostic e) ?a
            = filter (\<lambda>e. \<not> assumption_diagnostic e) ?b"
    by (rule analisis_filtered)
  have "Call ''pairwise_tukeyhsd'' \<in> set ?a
        \<longleftrightarrow> Call ''pairwise_tukeyhsd'' \<in> set (filter (\<lambda>e. \<not> assumption_diagnostic e) ?a)"
    by (simp add: effect_not_diagnostic)
  also have "\<dots> \<longleftrightarrow> Call ''pairwise_tukeyhsd'' \<in> set ?b"
    unfolding tr by (simp add: effect_not_diagnostic)
  finally show ?thesis
    using tr analisis_outcome [where lib = lib and lev = lev and sha = sha and ruta = ruta
         and lev' = lev' and sha' = sha']
    by simp
qed

theorem assumption_tests_advisory_witness:
  "filter (\<lambda>e. \<not> assumption_diagnostic e)
      (fst (analisis_anova_completo
              ((demo_lib (Fl (18 / 10000)))
                 \<lparr>levene := (\<lambda>x. Inr (Fl 0, Fl 1)), shapiro := (\<lambda>x. Inr (Fl 1, Fl 1))\<rparr>)
              ''ventas.xlsx''))
   = filter (\<lambda>e. \<not> assumption_diagnostic e)
      (fst (analisis_anova_completo
              ((demo_lib (Fl (18 / 10000)))
                 \<lparr>levene := (\<lambda>x. Inr (Fl 7, Fl (1 / 100))),
                  shapiro := (\<lambda>x. Inr (Fl (1 / 2), Fl (1 / 1000)))\<rparr>)
              ''ventas.xlsx''))
   \<and> Print ''   Conclusion: Se cumple el requisito de normalidad. '' []
       \<in> set (fst (analisis_anova_completo
              ((demo_lib (Fl (18 / 10000)))
                 \<lparr>levene := (\<lambda>x. Inr (Fl 0, Fl 1)), shapiro := (\<lambda>x. Inr (Fl 1, Fl 1))\<rparr>)
              ''ventas.xlsx''))
   \<and> Print ''   Conclusion: NO se cumple el requisito de normalidad. '' []
       \<in> set (fst (analisis_anova_completo
              ((demo_lib (Fl (18 / 10000)))
                 \<lparr>levene := (\<lambda>x. Inr (Fl 7, Fl (1 / 100))),
                  shapiro := (\<lambda>x. Inr (Fl (1 / 2), Fl (1 / 1000)))\<rparr>)
              ''ventas.xlsx''))"
proof -
  have b: "Print ''   Conclusion: Se cumple el requisito de normalidad. '' []
             \<in> set (fst (analisis_anova_completo
                  ((demo_lib (Fl (18 / 10000)))
                     \<lparr>levene := (\<lambda>x. Inr (Fl 0, Fl 1)), shapiro := (\<lambda>x. Inr (Fl 1, Fl 1))\<rparr>)
                  ''ventas.xlsx''))"
    by (simp add: analisis_anova_completo_def demo_load verificacion_def demo_lib_results
        in_and_then alpha_def planteamiento_def graficos_def)
  have c: "Print ''   Conclusion: NO se cumple el requisito de normalidad. '' []
             \<in> set (fst (analisis_anova_completo
                  ((demo_lib (Fl (18 / 10000)))
                     \<lparr>levene := (\<lambda>x. Inr (Fl 7, Fl (1 / 100))),
                      shapiro := (\<lambda>x. Inr (Fl (1 / 2), Fl (1 / 1000)))\<rparr>)
                  ''ventas.xlsx''))"
    by (simp add: analisis_anova_completo_def demo_load verificacion_def demo_lib_results
        in_and_then alpha_def planteamiento_def graficos_def)
  show ?thesis
    using assumption_tests_advisory
      [where lib = "demo_lib (Fl (18 / 10000))" and lev = "(Fl 0, Fl 1)"
         and sha = "(Fl 1, Fl 1)" and ruta = "''ventas.xlsx''"
         and lev' = "(Fl 7, Fl (1 / 100))" and sha' = "(Fl (1 / 2), Fl (1 / 1000))"] b c
    by simp
qed

end
